theory Spec2Isabelle
  imports Complex_Main "HOL-Library.Sublist"
begin

section \<open>JavaScript values used by the dashboard\<close>

text \<open>
  A JavaScript string is a sequence of UTF-16 code units; a code unit is modelled by its
  number. String literals of the source that are plain ASCII are written \<open>js ''...''\<close>.
\<close>

type_synonym jsstring = "nat list"

definition js :: "string \<Rightarrow> jsstring" where
  "js s = map of_char s"

text \<open>
  The code units that \<open>String.prototype.trim\<close> strips and that the regular expression
  class \<open>\s\<close> matches (WhiteSpace and LineTerminator of ECMAScript): TAB, LF, VT, FF, CR,
  SPACE, U+00A0, U+1680, U+2000..U+200A, U+2028, U+2029, U+202F, U+205F, U+3000, U+FEFF.
\<close>

definition isWhiteSpace :: "nat \<Rightarrow> bool" where
  "isWhiteSpace c =
     (c = 9 \<or> c = 10 \<or> c = 11 \<or> c = 12 \<or> c = 13 \<or> c = 32 \<or> c = 160 \<or> c = 5760 \<or>
      (8192 \<le> c \<and> c \<le> 8202) \<or> c = 8232 \<or> c = 8233 \<or> c = 8239 \<or> c = 8287 \<or>
      c = 12288 \<or> c = 65279)"

definition trim :: "jsstring \<Rightarrow> jsstring" where
  "trim s = rev (dropWhile isWhiteSpace (rev (dropWhile isWhiteSpace s)))"

text \<open>
  \<open>String.prototype.toLowerCase\<close> folds every cased letter of Unicode, and its case
  table is no part of the program. The filter engine and the tag canonicalization, whose
  properties range over all strings, therefore take the builtin as a parameter \<open>lc\<close>,
  and what is proved of them holds for every \<open>lc\<close>.

  \<open>toLowerCase\<close> below is the builtin on Basic Latin: A..Z are folded and every other
  code unit is left as it is. It is the value of \<open>lc\<close> in the concrete checks, which are
  all on Basic Latin strings. The category normalization uses it directly: the keywords
  it prepares the category for are Basic Latin, and outside Basic Latin only U+212A (to k)
  and U+0130 (to i followed by U+0307) lower-case to a Basic Latin letter, which brings
  none of the keywords about.
\<close>

definition lowerUnit :: "nat \<Rightarrow> nat" where
  "lowerUnit c = (if 65 \<le> c \<and> c \<le> 90 then c + 32 else c)"

definition toLowerCase :: "jsstring \<Rightarrow> jsstring" where
  "toLowerCase s = map lowerUnit s"

definition startsWith :: "jsstring \<Rightarrow> jsstring \<Rightarrow> bool" where
  "startsWith s p = (take (length p) s = p)"

definition endsWith :: "jsstring \<Rightarrow> jsstring \<Rightarrow> bool" where
  "endsWith s p = (length p \<le> length s \<and> drop (length s - length p) s = p)"

text \<open>\<open>s.includes(sub)\<close>: \<open>sub\<close> occurs in \<open>s\<close> at some position.\<close>

fun includes_str :: "jsstring \<Rightarrow> jsstring \<Rightarrow> bool" where
  "includes_str [] sub = (sub = [])"
| "includes_str (c # cs) sub = (startsWith (c # cs) sub \<or> includes_str cs sub)"

text \<open>
  \<open>s.replace(/[...]+/g, r)\<close>: every maximal run of code units of the class \<open>P\<close> is
  replaced by \<open>r\<close>.
\<close>

function replaceRuns :: "(nat \<Rightarrow> bool) \<Rightarrow> jsstring \<Rightarrow> jsstring \<Rightarrow> jsstring" where
  "replaceRuns P r [] = []"
| "replaceRuns P r (c # cs) =
     (if P c then r @ replaceRuns P r (dropWhile P cs) else c # replaceRuns P r cs)"
  by pat_completeness auto
termination
  by (relation "measure (\<lambda>(P, r, s). length s)") (auto simp: length_dropWhile_le less_Suc_eq_le)

text \<open>\<open>a || d\<close> on a string that may be null or undefined: the empty string is falsy.\<close>

fun strOr :: "jsstring option \<Rightarrow> jsstring \<Rightarrow> jsstring" where
  "strOr None d = d"
| "strOr (Some s) d = (if s = [] then d else s)"

text \<open>\<open>a ?? d\<close>: only null and undefined give way to \<open>d\<close>.\<close>

fun nullish :: "jsstring option \<Rightarrow> jsstring \<Rightarrow> jsstring" where
  "nullish None d = d"
| "nullish (Some s) d = s"

text \<open>
  A JavaScript number: a finite double (given by the real number it denotes), the two
  infinities, or NaN. Comparisons with NaN are false.
\<close>

datatype jsnum = Fin real | PosInf | NegInf | NaN

fun js_le :: "jsnum \<Rightarrow> jsnum \<Rightarrow> bool" where
  "js_le NaN b = False"
| "js_le a NaN = False"
| "js_le NegInf b = True"
| "js_le a PosInf = True"
| "js_le (Fin x) (Fin y) = (x \<le> y)"
| "js_le PosInf b = False"
| "js_le a NegInf = False"

definition js_ge :: "jsnum \<Rightarrow> jsnum \<Rightarrow> bool" where
  "js_ge a b = js_le b a"

text \<open>
  The values a coordinate field of a place record can hold: a number, \<open>null\<close>, or
  nothing at all (the field is absent, reading it gives \<open>undefined\<close>).
\<close>

datatype jsval = VNum jsnum | VNull | VUndefined

text \<open>\<open>Number(v)\<close> on these values: \<open>Number(null)\<close> is 0, \<open>Number(undefined)\<close> is NaN.\<close>

fun toNumber :: "jsval \<Rightarrow> jsnum" where
  "toNumber (VNum x) = x"
| "toNumber VNull = Fin 0"
| "toNumber VUndefined = NaN"

section \<open>Places\<close>

text \<open>
  The fields of \<open>Place\<close> that the filter engine reads. A field that may be null or
  absent in the data is an option. \<open>organisation\<close> is the alternative spelling that
  \<open>filtered\<close> falls back to.
\<close>

record Place =
  id_str :: "jsstring option"
  category :: "jsstring option"
  organization :: "jsstring option"
  organisation :: "jsstring option"
  office :: "jsstring option"
  address :: "jsstring option"
  place_id :: "jsstring option"
  lat :: jsval
  lng :: jsval
  service_tags :: "jsstring list option"

fun safeNum :: "jsval \<Rightarrow> real option" where
  "safeNum n =
     (let v = (case n of VNum x \<Rightarrow> x | _ \<Rightarrow> toNumber n)
      in case v of Fin x \<Rightarrow> Some x | _ \<Rightarrow> None)"

definition placeKey :: "Place \<Rightarrow> jsstring" where
  "placeKey p =
     (let pid = trim (strOr (id_str p) (strOr (place_id p) []));
          org = trim (strOr (organization p) []);
          office = trim (strOr (office p) []);
          addr = trim (strOr (address p) [])
      in if pid \<noteq> [] then pid @ js ''__'' @ (if office \<noteq> [] then office else org) @ js ''__'' @ addr
         else org @ js ''__'' @ office @ js ''__'' @ addr)"

subsection \<open>The filter engine\<close>

definition matchText :: "(jsstring \<Rightarrow> jsstring) \<Rightarrow> jsstring \<Rightarrow> Place \<Rightarrow> bool" where
  "matchText lc query p =
     (let q = lc (trim query);
          org = (case organization p of Some s \<Rightarrow> s | None \<Rightarrow> nullish (organisation p) []);
          office = nullish (office p) [];
          hay = lc (org @ js '' '' @ office)
      in q = [] \<or> includes_str hay q)"

definition matchTags :: "jsstring list \<Rightarrow> Place \<Rightarrow> bool" where
  "matchTags selectedTags p =
     (length selectedTags = 0 \<or>
      list_all (\<lambda>t. t \<in> set (case service_tags p of Some ts \<Rightarrow> ts | None \<Rightarrow> []))
        selectedTags)"

definition filtered ::
  "(jsstring \<Rightarrow> jsstring) \<Rightarrow> Place list \<Rightarrow> jsstring \<Rightarrow> jsstring list \<Rightarrow> Place list" where
  "filtered lc places query selectedTags =
     filter (\<lambda>p. matchText lc query p \<and> matchTags selectedTags p) places"

text \<open>
  The loop of \<open>filteredUnique\<close>: \<open>seen\<close> is the set of keys met so far, \<open>out\<close> the
  places kept so far.
\<close>

fun uniqueLoop :: "jsstring set \<Rightarrow> Place list \<Rightarrow> Place list \<Rightarrow> Place list" where
  "uniqueLoop seen out [] = out"
| "uniqueLoop seen out (p # ps) =
     (let k = placeKey p
      in if k \<in> seen then uniqueLoop seen out ps
         else uniqueLoop (insert k seen) (out @ [p]) ps)"

definition filteredUnique :: "Place list \<Rightarrow> Place list" where
  "filteredUnique fl = uniqueLoop {} [] fl"

datatype ViewMode = MapView | ListView

record Bounds =
  west :: jsnum
  south :: jsnum
  east :: jsnum
  north :: jsnum

definition inBounds :: "Bounds \<Rightarrow> Place \<Rightarrow> bool" where
  "inBounds b p =
     (case (safeNum (lat p), safeNum (lng p)) of
        (Some latv, Some lngv) \<Rightarrow>
          js_ge (Fin lngv) (west b) \<and> js_le (Fin lngv) (east b) \<and>
          js_ge (Fin latv) (south b) \<and> js_le (Fin latv) (north b)
      | _ \<Rightarrow> False)"

definition placesInView :: "ViewMode \<Rightarrow> Bounds option \<Rightarrow> Place list \<Rightarrow> Place list" where
  "placesInView viewMode mapBounds fu =
     (case mapBounds of
        None \<Rightarrow> fu
      | Some b \<Rightarrow> if viewMode \<noteq> MapView then fu else filter (inBounds b) fu)"

text \<open>A place record with every field absent, the base of the concrete records used below.\<close>

definition emptyPlace :: Place where
  "emptyPlace = \<lparr> id_str = None, category = None, organization = None, organisation = None,
     office = None, address = None, place_id = None, lat = VUndefined, lng = VUndefined,
     service_tags = None \<rparr>"

section \<open>Category colours and icons\<close>

text \<open>
  Both \<open>categoryColor\<close> and \<open>categoryIcon\<close> start with the same two lines: the category
  (the empty string when it is missing) is lower-cased and trimmed, every run of
  whitespace and hyphens becomes one underscore, and every run of underscores becomes one
  underscore. \<open>categoryNorm\<close> is the string \<open>c\<close> both functions then test.
\<close>

definition categoryNorm :: "jsstring option \<Rightarrow> jsstring" where
  "categoryNorm cat =
     (let raw = trim (toLowerCase (strOr cat []))
      in replaceRuns (\<lambda>x. x = 95) (js ''_'')
           (replaceRuns (\<lambda>x. isWhiteSpace x \<or> x = 45) (js ''_'') raw))"

definition categoryColor :: "jsstring option \<Rightarrow> jsstring" where
  "categoryColor cat =
     (let c = categoryNorm cat
      in if includes_str c (js ''library'') then js ''#2CA3E0''
         else if includes_str c (js ''food_access'') \<or> c = js ''food'' \<or>
                 startsWith c (js ''food_'') \<or> endsWith c (js ''_food'')
           then js ''#2563EB''
         else if includes_str c (js ''government'') \<or> includes_str c (js ''city'') \<or>
                 includes_str c (js ''state'')
           then js ''#99c24d''
         else if includes_str c (js ''education'') \<or> includes_str c (js ''adult'')
           then js ''#E11D48''
         else if includes_str c (js ''community'') \<or> includes_str c (js ''nonprofit'') \<or>
                 includes_str c (js ''organization'')
           then js ''#0F766E''
         else js ''#111827'')"

text \<open>
  The icons are emoji, written as their UTF-16 code units: books U+1F4DA, canned food
  U+1F96B, classical building U+1F3DB followed by the variation selector U+FE0F,
  graduation cap U+1F393, handshake U+1F91D, round pushpin U+1F4CD.
\<close>

definition categoryIcon :: "jsstring option \<Rightarrow> jsstring" where
  "categoryIcon cat =
     (let c = categoryNorm cat
      in if includes_str c (js ''library'') then [55357, 56538]
         else if includes_str c (js ''food_access'') \<or> c = js ''food'' \<or>
                 startsWith c (js ''food_'') \<or> endsWith c (js ''_food'')
           then [55358, 56683]
         else if includes_str c (js ''government'') \<or> includes_str c (js ''city'') \<or>
                 includes_str c (js ''state'')
           then [55356, 57307, 65039]
         else if includes_str c (js ''education'') \<or> includes_str c (js ''adult'')
           then [55356, 57235]
         else if includes_str c (js ''community'') \<or> includes_str c (js ''nonprofit'') \<or>
                 includes_str c (js ''organization'')
           then [55358, 56605]
         else [55357, 56525])"

section \<open>Loading and tag canonicalization\<close>

record TagGuide =
  tag :: "jsstring option"
  display_name :: "jsstring option"

text \<open>
  \<open>normalizeTagKey\<close>: U+00A0 becomes a space, the zero-width code units U+200B..U+200D
  and U+FEFF are deleted, the string is trimmed and lower-cased, and every run of
  whitespace becomes one space.
\<close>

definition normalizeTagKey :: "(jsstring \<Rightarrow> jsstring) \<Rightarrow> jsstring \<Rightarrow> jsstring" where
  "normalizeTagKey lc input =
     replaceRuns isWhiteSpace (js '' '')
       (lc (trim
          (filter (\<lambda>c. \<not> ((8203 \<le> c \<and> c \<le> 8205) \<or> c = 65279))
             (map (\<lambda>c. if c = 160 then 32 else c) input))))"

text \<open>\<open>s.replace(/_/g, " ")\<close>.\<close>

definition underscoresToSpaces :: "jsstring \<Rightarrow> jsstring" where
  "underscoresToSpaces s = map (\<lambda>c. if c = 95 then 32 else c) s"

text \<open>
  One round of the loop over the tag guide. The state is the pair of lookup tables
  \<open>displayToTag\<close> and \<open>tagLowerToTag\<close>; a later \<open>set\<close> under the same key overwrites
  an earlier one.
\<close>

definition tagStep ::
  "(jsstring \<Rightarrow> jsstring) \<Rightarrow>
   (jsstring \<rightharpoonup> jsstring) \<times> (jsstring \<rightharpoonup> jsstring) \<Rightarrow> TagGuide \<Rightarrow>
   (jsstring \<rightharpoonup> jsstring) \<times> (jsstring \<rightharpoonup> jsstring)" where
  "tagStep lc tables tg =
     (let displayToTag = fst tables; tagLowerToTag = snd tables;
          canonical = trim (strOr (tag tg) [])
      in if canonical = [] then tables
         else
           let tagLowerToTag = tagLowerToTag(normalizeTagKey lc canonical \<mapsto> canonical);
               tagLowerToTag =
                 tagLowerToTag(normalizeTagKey lc (underscoresToSpaces canonical) \<mapsto> canonical)
           in if strOr (display_name tg) [] = [] then (displayToTag, tagLowerToTag)
              else
                let dn = trim (strOr (display_name tg) []);
                    displayToTag = displayToTag(normalizeTagKey lc dn \<mapsto> canonical);
                    displayToTag =
                      displayToTag(normalizeTagKey lc (underscoresToSpaces dn) \<mapsto> canonical);
                    displayToTag =
                      displayToTag(normalizeTagKey lc (replaceRuns isWhiteSpace (js ''_'') dn)
                        \<mapsto> canonical)
                in (displayToTag, tagLowerToTag))"

definition buildMaps ::
  "(jsstring \<Rightarrow> jsstring) \<Rightarrow> TagGuide list \<Rightarrow>
   (jsstring \<rightharpoonup> jsstring) \<times> (jsstring \<rightharpoonup> jsstring)" where
  "buildMaps lc tagsData = foldl (tagStep lc) (Map.empty, Map.empty) tagsData"

definition canonicalizeTag ::
  "(jsstring \<Rightarrow> jsstring) \<Rightarrow>
   (jsstring \<rightharpoonup> jsstring) \<times> (jsstring \<rightharpoonup> jsstring) \<Rightarrow> jsstring \<Rightarrow> jsstring" where
  "canonicalizeTag lc tables raw =
     (let cleaned = map (\<lambda>c. if c = 160 then 32 else c) raw;
          key = normalizeTagKey lc cleaned
      in if key = [] then []
         else strOr (fst tables key)
                (strOr (snd tables key) (replaceRuns isWhiteSpace (js ''_'') key)))"

definition canonicalizePlace ::
  "(jsstring \<Rightarrow> jsstring) \<Rightarrow>
   (jsstring \<rightharpoonup> jsstring) \<times> (jsstring \<rightharpoonup> jsstring) \<Rightarrow> Place \<Rightarrow> Place" where
  "canonicalizePlace lc tables p =
     (case service_tags p of
        None \<Rightarrow> p
      | Some ts \<Rightarrow>
          p\<lparr>service_tags := Some (filter (\<lambda>t. t \<noteq> []) (map (canonicalizeTag lc tables) ts))\<rparr>)"

text \<open>
  What a \<open>fetch\<close> followed by \<open>json()\<close> comes to: the fetch promise rejects, the body
  does not parse, or the data arrives. The error is the value that is thrown.
\<close>

datatype 'a response = FetchRejected jsstring | JsonRejected jsstring | Json 'a

text \<open>The state of the dashboard that \<open>load\<close> touches, and the console.\<close>

record Dashboard =
  places :: "Place list"
  tagGuide :: "TagGuide list"
  loading :: bool
  console :: "jsstring list"

definition initialDashboard :: Dashboard where
  "initialDashboard = \<lparr> places = [], tagGuide = [], loading = True, console = [] \<rparr>"

text \<open>The handler given to \<open>load().catch\<close>.\<close>

definition loadFailed :: "jsstring \<Rightarrow> Dashboard \<Rightarrow> Dashboard" where
  "loadFailed e s = s\<lparr>console := console s @ [e], loading := False\<rparr>"

text \<open>
  \<open>load\<close> with its \<open>catch\<close>. \<open>Promise.all\<close> rejects with the error of the fetch that
  rejects first; \<open>tagsFirst\<close> says that, when both fetches reject, the one for the tags
  does so before the one for the places. After both fetches the two bodies are parsed in
  the order places, tags.
\<close>

fun load ::
  "(jsstring \<Rightarrow> jsstring) \<Rightarrow> bool \<Rightarrow> Place list response \<Rightarrow> TagGuide list response \<Rightarrow>
   Dashboard \<Rightarrow> Dashboard" where
  "load lc tagsFirst (FetchRejected e) (FetchRejected e') s =
     loadFailed (if tagsFirst then e' else e) (s\<lparr>loading := True\<rparr>)"
| "load lc tagsFirst (FetchRejected e) tagsRes s = loadFailed e (s\<lparr>loading := True\<rparr>)"
| "load lc tagsFirst placesRes (FetchRejected e) s = loadFailed e (s\<lparr>loading := True\<rparr>)"
| "load lc tagsFirst (JsonRejected e) tagsRes s = loadFailed e (s\<lparr>loading := True\<rparr>)"
| "load lc tagsFirst (Json placesData) (JsonRejected e) s =
     loadFailed e (s\<lparr>loading := True\<rparr>)"
| "load lc tagsFirst (Json placesData) (Json tagsData) s =
     s\<lparr>loading := True\<rparr>
      \<lparr>places := map (canonicalizePlace lc (buildMaps lc tagsData)) placesData,
       tagGuide := tagsData, loading := False\<rparr>"

text \<open>The error a response throws, if it throws one.\<close>

fun errorOf :: "'a response \<Rightarrow> jsstring option" where
  "errorOf (FetchRejected e) = Some e"
| "errorOf (JsonRejected e) = Some e"
| "errorOf (Json d) = None"

text \<open>The header shows "Loading..." exactly while the loading flag is set.\<close>

definition headerShowsLoading :: "Dashboard \<Rightarrow> bool" where
  "headerShowsLoading s = loading s"

text \<open>
  What one entry of the tag guide writes into the tables: its canonical identifier, the
  keys it sets in \<open>tagLowerToTag\<close> and the keys it sets in \<open>displayToTag\<close>.
\<close>

definition canonicalOf :: "TagGuide \<Rightarrow> jsstring" where
  "canonicalOf tg = trim (strOr (tag tg) [])"

definition idKeys :: "(jsstring \<Rightarrow> jsstring) \<Rightarrow> TagGuide \<Rightarrow> jsstring list" where
  "idKeys lc tg =
     (if canonicalOf tg = [] then []
      else [normalizeTagKey lc (canonicalOf tg),
            normalizeTagKey lc (underscoresToSpaces (canonicalOf tg))])"

definition displayKeys :: "(jsstring \<Rightarrow> jsstring) \<Rightarrow> TagGuide \<Rightarrow> jsstring list" where
  "displayKeys lc tg =
     (if canonicalOf tg = [] \<or> strOr (display_name tg) [] = [] then []
      else [normalizeTagKey lc (trim (strOr (display_name tg) [])),
            normalizeTagKey lc (underscoresToSpaces (trim (strOr (display_name tg) []))),
            normalizeTagKey lc
              (replaceRuns isWhiteSpace (js ''_'') (trim (strOr (display_name tg) [])))])"

text \<open>
  The identifier of the last entry of the tag guide that writes the key \<open>k\<close>, where
  \<open>keys\<close> gives the keys an entry writes (\<open>idKeys lc\<close> for \<open>tagLowerToTag\<close>,
  \<open>displayKeys lc\<close> for \<open>displayToTag\<close>); \<open>None\<close> if no entry writes it.
\<close>

definition lastWriter ::
  "(TagGuide \<Rightarrow> jsstring list) \<Rightarrow> jsstring \<Rightarrow> TagGuide list \<Rightarrow> jsstring option" where
  "lastWriter keys k tagsData =
     map_option canonicalOf (find (\<lambda>tg. k \<in> set (keys tg)) (rev tagsData))"

section \<open>Numbers: clamping and parsing\<close>

definition isFinite :: "jsnum \<Rightarrow> bool" where
  "isFinite v = (case v of Fin x \<Rightarrow> True | _ \<Rightarrow> False)"

text \<open>\<open>Math.min\<close> and \<open>Math.max\<close> of two numbers: NaN if one of them is NaN.\<close>

fun js_min :: "jsnum \<Rightarrow> jsnum \<Rightarrow> jsnum" where
  "js_min NaN b = NaN"
| "js_min a NaN = NaN"
| "js_min a b = (if js_le a b then a else b)"

fun js_max :: "jsnum \<Rightarrow> jsnum \<Rightarrow> jsnum" where
  "js_max NaN b = NaN"
| "js_max a NaN = NaN"
| "js_max a b = (if js_le a b then b else a)"

text \<open>
  Addition and subtraction of doubles. The sum of two finite doubles is the exact sum
  rounded to a double; \<open>rnd\<close> is that rounding (it gives a finite double, or an infinity
  on overflow). The properties below hold for every rounding.
\<close>

fun js_add :: "(real \<Rightarrow> jsnum) \<Rightarrow> jsnum \<Rightarrow> jsnum \<Rightarrow> jsnum" where
  "js_add rnd (Fin x) (Fin y) = rnd (x + y)"
| "js_add rnd NaN b = NaN"
| "js_add rnd a NaN = NaN"
| "js_add rnd PosInf NegInf = NaN"
| "js_add rnd NegInf PosInf = NaN"
| "js_add rnd PosInf b = PosInf"
| "js_add rnd NegInf b = NegInf"
| "js_add rnd a PosInf = PosInf"
| "js_add rnd a NegInf = NegInf"

fun js_neg :: "jsnum \<Rightarrow> jsnum" where
  "js_neg (Fin x) = Fin (- x)"
| "js_neg PosInf = NegInf"
| "js_neg NegInf = PosInf"
| "js_neg NaN = NaN"

definition js_sub :: "(real \<Rightarrow> jsnum) \<Rightarrow> jsnum \<Rightarrow> jsnum \<Rightarrow> jsnum" where
  "js_sub rnd a b = js_add rnd a (js_neg b)"

section \<open>The sidebar width\<close>

record ResizeState =
  dragging :: bool
  startX :: jsnum
  startWidth :: jsnum

text \<open>
  The layout state: the \<open>sidebarWidth\<close> state, the \<open>resizeState\<close> ref, and the entry
  "arrival\_sidebar\_width" of the local storage (\<open>None\<close> when there is none).
\<close>

record Layout =
  sidebarWidth :: jsnum
  resizeState :: ResizeState
  stored :: "jsstring option"

text \<open>
  The initializer of \<open>sidebarWidth\<close>. \<open>hasWindow\<close> is \<open>typeof window !== "undefined"\<close>,
  \<open>raw\<close> the stored entry. \<open>Number(raw)\<close> is 0 for \<open>null\<close>; on a string it is the
  builtin conversion, the parameter \<open>numberOf\<close>.
\<close>

definition initialSidebarWidth :: "(jsstring \<Rightarrow> jsnum) \<Rightarrow> bool \<Rightarrow> jsstring option \<Rightarrow> jsnum" where
  "initialSidebarWidth numberOf hasWindow raw =
     (if hasWindow then
        (let v = (case raw of None \<Rightarrow> Fin 0 | Some r \<Rightarrow> numberOf r)
         in if isFinite v \<and> js_ge v (Fin 260) \<and> js_le v (Fin 520) then v else Fin 360)
      else Fin 360)"

text \<open>
  The effect that depends on \<open>sidebarWidth\<close>: it stores \<open>String(sidebarWidth)\<close>
  (\<open>stringOf\<close> is that conversion). It runs after the first render and after every
  render in which \<open>sidebarWidth\<close> has changed.
\<close>

definition persist :: "(jsnum \<Rightarrow> jsstring) \<Rightarrow> Layout \<Rightarrow> Layout" where
  "persist stringOf s = s\<lparr>stored := Some (stringOf (sidebarWidth s))\<rparr>"

definition mount :: "(jsstring \<Rightarrow> jsnum) \<Rightarrow> (jsnum \<Rightarrow> jsstring) \<Rightarrow> jsstring option \<Rightarrow> Layout" where
  "mount numberOf stringOf raw =
     persist stringOf
       \<lparr> sidebarWidth = initialSidebarWidth numberOf True raw,
         resizeState = \<lparr> dragging = False, startX = Fin 0, startWidth = Fin 360 \<rparr>,
         stored = raw \<rparr>"

text \<open>
  The pointer events, each with its \<open>clientX\<close> (a finite double): the press on the
  resize handle, a move and a release anywhere in the window.
\<close>

datatype PointerEvent = PointerDown real | PointerMove real | PointerUp

definition setSidebarWidth :: "(jsnum \<Rightarrow> jsstring) \<Rightarrow> jsnum \<Rightarrow> Layout \<Rightarrow> Layout" where
  "setSidebarWidth stringOf next s =
     (if next = sidebarWidth s then s else persist stringOf (s\<lparr>sidebarWidth := next\<rparr>))"

definition onMove :: "(real \<Rightarrow> jsnum) \<Rightarrow> (jsnum \<Rightarrow> jsstring) \<Rightarrow> real \<Rightarrow> Layout \<Rightarrow> Layout" where
  "onMove rnd stringOf clientX s =
     (if \<not> dragging (resizeState s) then s
      else
        let delta = js_sub rnd (Fin clientX) (startX (resizeState s));
            next = js_max (Fin 260)
                     (js_min (Fin 520) (js_add rnd (startWidth (resizeState s)) delta))
        in setSidebarWidth stringOf next s)"

fun handle :: "(real \<Rightarrow> jsnum) \<Rightarrow> (jsnum \<Rightarrow> jsstring) \<Rightarrow> Layout \<Rightarrow> PointerEvent \<Rightarrow> Layout" where
  "handle rnd stringOf s (PointerDown clientX) =
     s\<lparr>resizeState := \<lparr> dragging = True, startX = Fin clientX, startWidth = sidebarWidth s \<rparr>\<rparr>"
| "handle rnd stringOf s (PointerMove clientX) = onMove rnd stringOf clientX s"
| "handle rnd stringOf s PointerUp =
     s\<lparr>resizeState := (resizeState s)\<lparr>dragging := False\<rparr>\<rparr>"


section \<open>The photo proxy: the requested width\<close>

definition isDigit :: "nat \<Rightarrow> bool" where
  "isDigit c = (48 \<le> c \<and> c \<le> 57)"

text \<open>The value of a string of decimal digits.\<close>

definition digitsValue :: "jsstring \<Rightarrow> nat" where
  "digitsValue ds = foldl (\<lambda>a c. 10 * a + (c - 48)) 0 ds"

text \<open>
  \<open>Number.parseInt(s, 10)\<close>: leading whitespace is skipped, then an optional sign, then
  the longest run of decimal digits is read; with no digit the result is NaN. An integer
  of at least \<open>2^1024 - 2^970\<close> rounds to an infinity. For a smaller integer that is
  not a double, \<open>Fin\<close> of it stands for the double next to it, which lies on the same
  side of 50 and of 1600.
\<close>

definition parseInt10 :: "jsstring \<Rightarrow> jsnum" where
  "parseInt10 s =
     (let s1 = dropWhile isWhiteSpace s;
          negative = (s1 \<noteq> [] \<and> hd s1 = 45);
          s2 = (if s1 \<noteq> [] \<and> (hd s1 = 45 \<or> hd s1 = 43) then tl s1 else s1);
          ds = takeWhile isDigit s2
      in if ds = [] then NaN
         else if digitsValue ds \<ge> 2 ^ 1024 - 2 ^ 970
           then (if negative then NegInf else PosInf)
         else Fin (if negative then - real (digitsValue ds) else real (digitsValue ds)))"

text \<open>
  The first lines of \<open>GET\<close>: \<open>wq\<close> is \<open>searchParams.get("w")\<close>, the result is the
  width \<open>w\<close> that is put into the upstream URL.
\<close>

definition photoWidth :: "jsstring option \<Rightarrow> jsnum" where
  "photoWidth wq =
     (let wParam = strOr wq (js ''400'');
          wNum = parseInt10 wParam
      in if isFinite wNum then js_min (Fin 1600) (js_max (Fin 50) wNum) else Fin 400)"


text \<open>Two entries of a tag guide, used in the concrete checks below.\<close>

definition esolEntry :: TagGuide where
  "esolEntry = \<lparr> tag = Some (js ''esol_classes''), display_name = Some (js ''ESOL Classes'') \<rparr>"

definition foodEntry :: TagGuide where
  "foodEntry = \<lparr> tag = Some (js ''food_access''), display_name = Some (js ''Food Access'') \<rparr>"

text \<open>The code units that the normalization of a category turns into an underscore.\<close>

definition isSeparator :: "nat \<Rightarrow> bool" where
  "isSeparator c = (isWhiteSpace c \<or> c = 45 \<or> c = 95)"

section \<open>Properties\<close>

subsection \<open>Strings\<close>

lemma dropWhile_all: "\<forall>c \<in> set xs. P c \<Longrightarrow> dropWhile P xs = []"
  by simp

lemma replaceRuns_all: "\<forall>c \<in> set xs. P c \<Longrightarrow> xs \<noteq> [] \<Longrightarrow> replaceRuns P r xs = r"
  by (cases xs) (simp_all add: dropWhile_all)

lemma replaceRuns_append_hd:
  "ys = [] \<or> \<not> P (hd ys) \<Longrightarrow>
   replaceRuns P r (xs @ ys) = replaceRuns P r xs @ replaceRuns P r ys"
proof (induction P r xs rule: replaceRuns.induct)
  case (1 P r)
  show ?case by simp
next
  case (2 P r c cs)
  show ?case
  proof (cases "P c")
    case False
    with 2 show ?thesis by simp
  next
    case True
    show ?thesis
    proof (cases "\<forall>x \<in> set cs. P x")
      case all: True
      then have "dropWhile P (cs @ ys) = ys"
        using "2.prems" by (cases ys) (auto simp: dropWhile_append)
      moreover from all have "dropWhile P cs = []" by simp
      ultimately show ?thesis using True by (simp del: dropWhile_eq_Nil_conv)
    next
      case False
      then have "dropWhile P (cs @ ys) = dropWhile P cs @ ys"
        by (auto simp: dropWhile_append)
      with True "2.IH"(1) "2.prems" show ?thesis by simp
    qed
  qed
qed

lemma replaceRuns_append_last:
  "xs \<noteq> [] \<Longrightarrow> \<not> P (last xs) \<Longrightarrow>
   replaceRuns P r (xs @ ys) = replaceRuns P r xs @ replaceRuns P r ys"
proof (induction P r xs rule: replaceRuns.induct)
  case (1 P r)
  then show ?case by simp
next
  case (2 P r c cs)
  show ?case
  proof (cases "P c")
    case False
    with 2 show ?thesis by (cases "cs = []") simp_all
  next
    case True
    with "2.prems" have cs: "cs \<noteq> []" by auto
    with "2.prems" have l: "\<not> P (last cs)" by simp
    with cs have ex: "\<exists>x \<in> set cs. \<not> P x" using last_in_set by blast
    then have d: "dropWhile P (cs @ ys) = dropWhile P cs @ ys"
      by (auto simp: dropWhile_append)
    from ex have ne: "dropWhile P cs \<noteq> []" by simp
    have "last (dropWhile P cs) = last cs"
      using ne by (metis last_appendR takeWhile_dropWhile_id)
    with l ne True "2.IH"(1) d show ?thesis by simp
  qed
qed

lemma replaceRuns_last:
  "xs \<noteq> [] \<Longrightarrow> \<not> P (last xs) \<Longrightarrow>
   replaceRuns P r xs \<noteq> [] \<and> last (replaceRuns P r xs) = last xs"
proof (induction P r xs rule: replaceRuns.induct)
  case (1 P r)
  then show ?case by simp
next
  case (2 P r c cs)
  show ?case
  proof (cases "P c")
    case False
    with 2 show ?thesis by (cases "cs = []") simp_all
  next
    case True
    with "2.prems" have cs: "cs \<noteq> []" by auto
    with "2.prems" have l: "\<not> P (last cs)" by simp
    with cs have ex: "\<exists>x \<in> set cs. \<not> P x" using last_in_set by blast
    then have ne: "dropWhile P cs \<noteq> []" by simp
    have "last (dropWhile P cs) = last cs"
      using ne by (metis last_appendR takeWhile_dropWhile_id)
    with l ne True "2.IH"(1) cs show ?thesis by simp
  qed
qed

lemma replaceRuns_hd:
  "ys \<noteq> [] \<Longrightarrow> \<not> P (hd ys) \<Longrightarrow>
   replaceRuns P r ys \<noteq> [] \<and> hd (replaceRuns P r ys) = hd ys"
  by (cases ys) simp_all

lemma dropWhile_keep: "xs \<noteq> [] \<Longrightarrow> \<not> P (hd xs) \<Longrightarrow> dropWhile P xs = xs"
  by (cases xs) simp_all

lemma dropWhile_last:
  "xs \<noteq> [] \<Longrightarrow> \<not> P (last xs) \<Longrightarrow> dropWhile P xs \<noteq> [] \<and> last (dropWhile P xs) = last xs"
proof -
  assume xs: "xs \<noteq> []" and l: "\<not> P (last xs)"
  then have ne: "dropWhile P xs \<noteq> []" using last_in_set by auto
  then have "last (dropWhile P xs) = last xs"
    by (metis last_appendR takeWhile_dropWhile_id)
  with ne show ?thesis by simp
qed

lemma trim_last:
  assumes "a \<noteq> []" "\<not> isWhiteSpace (last a)"
  shows "trim a = dropWhile isWhiteSpace a"
proof -
  from assms have d: "dropWhile isWhiteSpace a \<noteq> []"
    "last (dropWhile isWhiteSpace a) = last a"
    using dropWhile_last by blast+
  then have "dropWhile isWhiteSpace (rev (dropWhile isWhiteSpace a)) = rev (dropWhile isWhiteSpace a)"
    using assms by (intro dropWhile_keep) (simp_all add: hd_rev)
  then show ?thesis by (simp add: trim_def)
qed

lemma trim_hd:
  assumes "b \<noteq> []" "\<not> isWhiteSpace (hd b)"
  shows "trim b = rev (dropWhile isWhiteSpace (rev b))"
  using assms by (simp add: trim_def dropWhile_keep)

lemma trim_interior:
  assumes a: "a \<noteq> []" "\<not> isWhiteSpace (last a)" and b: "b \<noteq> []" "\<not> isWhiteSpace (hd b)"
  shows "trim (a @ s @ b) = trim a @ s @ trim b"
proof -
  from a have "\<exists>x \<in> set a. \<not> isWhiteSpace x" using last_in_set by blast
  then have 1: "dropWhile isWhiteSpace (a @ s @ b) = dropWhile isWhiteSpace a @ s @ b"
    by (auto simp: dropWhile_append)
  from b have "\<exists>x \<in> set (rev b). \<not> isWhiteSpace x" using hd_in_set by auto
  then have 2: "dropWhile isWhiteSpace (rev b @ rev s @ rev (dropWhile isWhiteSpace a)) =
      dropWhile isWhiteSpace (rev b) @ rev s @ rev (dropWhile isWhiteSpace a)"
    by (auto simp: dropWhile_append)
  show ?thesis
    unfolding trim_last [OF a] trim_hd [OF b] by (simp add: trim_def 1 2)
qed

lemma trim_ends:
  "a \<noteq> [] \<Longrightarrow> \<not> isWhiteSpace (last a) \<Longrightarrow> trim a \<noteq> [] \<and> last (trim a) = last a"
  "b \<noteq> [] \<Longrightarrow> \<not> isWhiteSpace (hd b) \<Longrightarrow> trim b \<noteq> [] \<and> hd (trim b) = hd b"
proof -
  show "a \<noteq> [] \<Longrightarrow> \<not> isWhiteSpace (last a) \<Longrightarrow> trim a \<noteq> [] \<and> last (trim a) = last a"
    using dropWhile_last [of a isWhiteSpace] by (simp add: trim_last del: dropWhile_eq_Nil_conv)
  assume b: "b \<noteq> []" "\<not> isWhiteSpace (hd b)"
  then have r: "rev b \<noteq> []" "\<not> isWhiteSpace (last (rev b))" by (simp_all add: last_rev)
  from dropWhile_last [of "rev b" isWhiteSpace] r b show "trim b \<noteq> [] \<and> hd (trim b) = hd b"
    by (simp add: trim_hd hd_rev last_rev del: dropWhile_eq_Nil_conv)
qed

lemma lowerUnit_separator: "isSeparator (lowerUnit c) = isSeparator c"
  by (auto simp: isSeparator_def lowerUnit_def isWhiteSpace_def)

lemma toLowerCase_separators: "\<forall>c \<in> set s. isSeparator c \<Longrightarrow> toLowerCase s = s"
  by (induction s) (auto simp: toLowerCase_def lowerUnit_def isSeparator_def isWhiteSpace_def)

lemma underscores:
  "s \<noteq> [] \<Longrightarrow> \<forall>c \<in> set s. P c \<or> c = 95 \<Longrightarrow>
   replaceRuns P [95] s \<noteq> [] \<and> (\<forall>c \<in> set (replaceRuns P [95] s). c = 95)"
proof (induction P "[95::nat]" s rule: replaceRuns.induct)
  case (1 P)
  then show ?case by simp
next
  case (2 P c cs)
  show ?case
  proof (cases "P c")
    case True
    have "\<forall>x \<in> set (dropWhile P cs). P x \<or> x = 95"
      using "2.prems" set_dropWhileD by fastforce
    with True "2.hyps"(1) show ?thesis
      by (cases "dropWhile P cs = []") (auto simp del: dropWhile_eq_Nil_conv)
  next
    case False
    with 2 show ?thesis by (cases "cs = []") auto
  qed
qed


subsection \<open>Deduplication\<close>

lemma uniqueLoop_out: "uniqueLoop seen out xs = out @ uniqueLoop seen [] xs"
proof (induction xs arbitrary: seen out)
  case Nil
  show ?case by simp
next
  case (Cons p ps)
  show ?case
    using Cons.IH [of seen out] Cons.IH [of "insert (placeKey p) seen" "out @ [p]"]
      Cons.IH [of "insert (placeKey p) seen" "[p]"]
    by (simp add: Let_def)
qed

lemma uniqueLoop_Cons:
  "uniqueLoop seen [] (p # ps) =
     (if placeKey p \<in> seen then uniqueLoop seen [] ps
      else p # uniqueLoop (insert (placeKey p) seen) [] ps)"
  using uniqueLoop_out [of "insert (placeKey p) seen" "[p]" ps] by (simp add: Let_def)

lemma uniqueLoop_keys:
  "placeKey ` set (uniqueLoop seen [] xs) = placeKey ` set xs - seen"
  by (induction xs arbitrary: seen) (auto simp: uniqueLoop_Cons simp del: uniqueLoop.simps(2))

lemma uniqueLoop_distinct: "distinct (map placeKey (uniqueLoop seen [] xs))"
proof (induction xs arbitrary: seen)
  case Nil
  show ?case by simp
next
  case (Cons p ps)
  have "placeKey p \<notin> placeKey ` set (uniqueLoop (insert (placeKey p) seen) [] ps)"
    by (simp add: uniqueLoop_keys)
  with Cons.IH show ?case by (simp add: uniqueLoop_Cons del: uniqueLoop.simps(2))
qed

lemma uniqueLoop_subseq: "subseq (uniqueLoop seen [] xs) xs"
  by (induction xs arbitrary: seen) (auto simp: uniqueLoop_Cons simp del: uniqueLoop.simps(2))

lemma uniqueLoop_find:
  "k \<notin> seen \<Longrightarrow>
   find (\<lambda>p. placeKey p = k) (uniqueLoop seen [] xs) = find (\<lambda>p. placeKey p = k) xs"
  by (induction xs arbitrary: seen) (auto simp: uniqueLoop_Cons simp del: uniqueLoop.simps(2))

text \<open>
  C1. Whatever the places, the applied query and the selected tags are, the deduplicated
  filtered sequence has no two entries with the same identity key; it is a subsequence of
  the filtered sequence (the source order of the kept entries is preserved); and for every
  key, the first entry of the filtered sequence with that key is the entry kept (the first
  occurrence is kept, later repeats are dropped, and no key is lost).
\<close>

theorem filteredUnique_dedup:
  "distinct (map placeKey (filteredUnique (filtered lc allPlaces query selectedTags))) \<and>
   subseq (filteredUnique (filtered lc allPlaces query selectedTags))
     (filtered lc allPlaces query selectedTags) \<and>
   find (\<lambda>p. placeKey p = k) (filteredUnique (filtered lc allPlaces query selectedTags)) =
     find (\<lambda>p. placeKey p = k) (filtered lc allPlaces query selectedTags)"
  by (simp add: filteredUnique_def uniqueLoop_distinct uniqueLoop_subseq uniqueLoop_find)

subsection \<open>The tag predicate\<close>

text \<open>
  C2. A place passes the tag predicate exactly when no tag is selected or every selected
  tag is in the place's list of service tags (a missing list counts as empty): the
  selection is a conjunction, not a disjunction.
\<close>

theorem matchTags_and:
  "matchTags selectedTags p =
     (selectedTags = [] \<or>
      (\<forall>t \<in> set selectedTags. t \<in> set (case service_tags p of Some ts \<Rightarrow> ts | None \<Rightarrow> [])))"
  by (simp add: matchTags_def list_all_iff)

text \<open>A place tagged A, B, C matches the selection A, B and does not match A, D.\<close>

theorem matchTags_and_witness:
  "matchTags [js ''A'', js ''B'']
     (emptyPlace\<lparr>service_tags := Some [js ''A'', js ''B'', js ''C'']\<rparr>) \<and>
   \<not> matchTags [js ''A'', js ''D'']
     (emptyPlace\<lparr>service_tags := Some [js ''A'', js ''B'', js ''C'']\<rparr>) \<and>
   matchTags [] (emptyPlace\<lparr>service_tags := Some [js ''A'', js ''B'', js ''C'']\<rparr>)"
  using
    matchTags_and [of "[js ''A'', js ''B'']"
      "emptyPlace\<lparr>service_tags := Some [js ''A'', js ''B'', js ''C'']\<rparr>"]
    matchTags_and [of "[js ''A'', js ''D'']"
      "emptyPlace\<lparr>service_tags := Some [js ''A'', js ''B'', js ''C'']\<rparr>"]
    matchTags_and [of "[]"
      "emptyPlace\<lparr>service_tags := Some [js ''A'', js ''B'', js ''C'']\<rparr>"]
  by (simp add: js_def)

subsection \<open>The identity key\<close>

text \<open>
  Two records that differ in the office name only can have the same key: the key is built
  from the trimmed office, so "Room A" and "Room A " (a trailing space) give one key.
\<close>

theorem placeKey_office_counterexample:
  "office (emptyPlace\<lparr>id_str := Some (js ''ChIJ123''), address := Some (js ''1 Main St''),
      office := Some (js ''Room A'')\<rparr>)
   \<noteq> office (emptyPlace\<lparr>id_str := Some (js ''ChIJ123''), address := Some (js ''1 Main St''),
      office := Some (js ''Room A '')\<rparr>) \<and>
   placeKey (emptyPlace\<lparr>id_str := Some (js ''ChIJ123''), address := Some (js ''1 Main St''),
      office := Some (js ''Room A'')\<rparr>)
   = placeKey (emptyPlace\<lparr>id_str := Some (js ''ChIJ123''), address := Some (js ''1 Main St''),
      office := Some (js ''Room A '')\<rparr>)"
  by (simp add: placeKey_def js_def trim_def isWhiteSpace_def emptyPlace_def)

text \<open>
  With an upstream id, an empty office is replaced by the organization, so an empty office
  and an office named like the organization give one key as well.
\<close>

lemma placeKey_empty_office:
  "placeKey (emptyPlace\<lparr>id_str := Some (js ''ChIJ123''), organization := Some (js ''Hub''),
      office := Some []\<rparr>)
   = placeKey (emptyPlace\<lparr>id_str := Some (js ''ChIJ123''), organization := Some (js ''Hub''),
      office := Some (js ''Hub'')\<rparr>)"
  by (simp add: placeKey_def js_def trim_def isWhiteSpace_def emptyPlace_def)

text \<open>
  C3 (amended). \<open>placeKey\<close> is a function of the record. Two records that agree on every
  field but the office have different keys exactly when their offices differ after
  trimming and, where an upstream id is present, after an empty office has given way to
  the trimmed organization name.
\<close>

theorem placeKey_office:
  "(placeKey (p\<lparr>office := a\<rparr>) = placeKey (p\<lparr>office := b\<rparr>)) =
     (if trim (strOr (id_str p) (strOr (place_id p) [])) \<noteq> []
      then (if trim (strOr a []) \<noteq> [] then trim (strOr a [])
            else trim (strOr (organization p) []))
         = (if trim (strOr b []) \<noteq> [] then trim (strOr b [])
            else trim (strOr (organization p) []))
      else trim (strOr a []) = trim (strOr b []))"
  by (simp add: placeKey_def Let_def)

text \<open>
  Two places share the upstream id "ChIJ123" and the address "1 Main St" and have the
  offices "Room A" and "Room B": their keys differ.
\<close>

theorem placeKey_office_witness:
  "placeKey (emptyPlace\<lparr>id_str := Some (js ''ChIJ123''), address := Some (js ''1 Main St''),
      office := Some (js ''Room A'')\<rparr>)
   \<noteq> placeKey (emptyPlace\<lparr>id_str := Some (js ''ChIJ123''), address := Some (js ''1 Main St''),
      office := Some (js ''Room B'')\<rparr>)"
  using placeKey_office
    [where p = "emptyPlace\<lparr>id_str := Some (js ''ChIJ123''), address := Some (js ''1 Main St'')\<rparr>"
       and a = "Some (js ''Room A'')" and b = "Some (js ''Room B'')"]
  by (simp add: js_def trim_def isWhiteSpace_def emptyPlace_def)

subsection \<open>The viewport restriction\<close>

text \<open>
  C5. In list mode, whatever the bounds are, and in any mode while the bounds are not
  known, the in-view sequence is the deduplicated filtered sequence itself.
\<close>

theorem placesInView_list_noop:
  "placesInView ListView mapBounds (filteredUnique fl) = filteredUnique fl \<and>
   placesInView viewMode None (filteredUnique fl) = filteredUnique fl"
  by (simp add: placesInView_def split: option.splits)

text \<open>
  With numbers as coordinates the restriction is the closed rectangle: the place is in
  view exactly when both numbers are finite and lie within the bounds, edges included.
\<close>

lemma placesInView_numbers:
  "lat p = VNum a \<Longrightarrow> lng p = VNum b \<Longrightarrow>
   (p \<in> set (placesInView MapView (Some bd) fu)) =
     (p \<in> set fu \<and> isFinite a \<and> isFinite b \<and>
      js_le (west bd) b \<and> js_le b (east bd) \<and> js_le (south bd) a \<and> js_le a (north bd))"
  by (cases a; cases b) (auto simp: placesInView_def inBounds_def js_ge_def isFinite_def)

text \<open>A place with an absent coordinate is never in view.\<close>

lemma placesInView_absent:
  "lat p = VUndefined \<or> lng p = VUndefined \<Longrightarrow>
   p \<notin> set (placesInView MapView (Some bd) fu)"
  by (auto simp: placesInView_def inBounds_def split: option.splits)

text \<open>
  Bounds west -71.1, south 42.3, east -71.0, north 42.4: the place at (42.35, -71.05) is
  in view, the place at (42.5, -71.05) is not.
\<close>

lemma placesInView_scenario:
  "placesInView MapView
     (Some \<lparr>west = Fin (-71.1), south = Fin 42.3, east = Fin (-71.0), north = Fin 42.4\<rparr>)
     [emptyPlace\<lparr>lat := VNum (Fin 42.35), lng := VNum (Fin (-71.05))\<rparr>,
      emptyPlace\<lparr>lat := VNum (Fin 42.5), lng := VNum (Fin (-71.05))\<rparr>]
   = [emptyPlace\<lparr>lat := VNum (Fin 42.35), lng := VNum (Fin (-71.05))\<rparr>]"
  by (simp add: placesInView_def inBounds_def js_ge_def emptyPlace_def)

text \<open>
  C6. A place whose coordinates are \<open>null\<close> has no coordinates, and yet it is in view
  whenever the bounds contain the point (0, 0): \<open>safeNum\<close> hands \<open>null\<close> to
  \<open>Number\<close>, which gives 0, so the test for \<open>null\<close> that follows never fires.
\<close>

theorem placesInView_null_coordinates:
  "placesInView MapView (Some \<lparr>west = Fin (-1), south = Fin (-1), east = Fin 1, north = Fin 1\<rparr>)
     [emptyPlace\<lparr>lat := VNull, lng := VNull\<rparr>] = [emptyPlace\<lparr>lat := VNull, lng := VNull\<rparr>]"
  by (simp add: placesInView_def inBounds_def js_ge_def emptyPlace_def)

subsection \<open>Category colours and icons\<close>

lemmas js_eval = js_def toLowerCase_def lowerUnit_def trim_def isWhiteSpace_def
  startsWith_def endsWith_def

lemma categoryNorm_food_access:
  "categoryNorm (Some (js ''Food-Access'')) = js ''food_access''"
  "categoryNorm (Some (js ''food_access'')) = js ''food_access''"
  "categoryNorm (Some (js ''Food Access'')) = js ''food_access''"
  by (simp_all add: categoryNorm_def js_eval)

lemma food_access_tests:
  "\<not> includes_str (js ''food_access'') (js ''library'')"
  "includes_str (js ''food_access'') (js ''food_access'')"
  by (simp_all add: js_eval)

text \<open>
  C7. "Food-Access", "food\_access" and "Food Access" get one colour and one icon, and both
  functions apply their rules to the normalized category in this order: library; food
  (a "food\_access" inside, "food" alone, a leading "food\_" or a trailing "\_food");
  government, city or state; education or adult; community, nonprofit or organization;
  and the neutral colour and pin otherwise.
\<close>

theorem category_rules:
  "categoryColor (Some (js ''Food-Access'')) = js ''#2563EB'' \<and>
   categoryColor (Some (js ''food_access'')) = js ''#2563EB'' \<and>
   categoryColor (Some (js ''Food Access'')) = js ''#2563EB'' \<and>
   categoryIcon (Some (js ''Food-Access'')) = [55358, 56683] \<and>
   categoryIcon (Some (js ''food_access'')) = [55358, 56683] \<and>
   categoryIcon (Some (js ''Food Access'')) = [55358, 56683] \<and>
   (let c = categoryNorm cat;
        library = includes_str c (js ''library'');
        food = (includes_str c (js ''food_access'') \<or> c = js ''food'' \<or>
                startsWith c (js ''food_'') \<or> endsWith c (js ''_food''));
        government = (includes_str c (js ''government'') \<or> includes_str c (js ''city'') \<or>
                includes_str c (js ''state''));
        education = (includes_str c (js ''education'') \<or> includes_str c (js ''adult''));
        community = (includes_str c (js ''community'') \<or> includes_str c (js ''nonprofit'') \<or>
                includes_str c (js ''organization''))
    in (library \<longrightarrow> categoryColor cat = js ''#2CA3E0'' \<and> categoryIcon cat = [55357, 56538]) \<and>
       (\<not> library \<and> food \<longrightarrow>
          categoryColor cat = js ''#2563EB'' \<and> categoryIcon cat = [55358, 56683]) \<and>
       (\<not> library \<and> \<not> food \<and> government \<longrightarrow>
          categoryColor cat = js ''#99c24d'' \<and> categoryIcon cat = [55356, 57307, 65039]) \<and>
       (\<not> library \<and> \<not> food \<and> \<not> government \<and> education \<longrightarrow>
          categoryColor cat = js ''#E11D48'' \<and> categoryIcon cat = [55356, 57235]) \<and>
       (\<not> library \<and> \<not> food \<and> \<not> government \<and> \<not> education \<and> community \<longrightarrow>
          categoryColor cat = js ''#0F766E'' \<and> categoryIcon cat = [55358, 56605]) \<and>
       (\<not> library \<and> \<not> food \<and> \<not> government \<and> \<not> education \<and> \<not> community \<longrightarrow>
          categoryColor cat = js ''#111827'' \<and> categoryIcon cat = [55357, 56525]))"
proof -
  have ex: "categoryColor (Some (js ''Food-Access'')) = js ''#2563EB''"
    "categoryColor (Some (js ''food_access'')) = js ''#2563EB''"
    "categoryColor (Some (js ''Food Access'')) = js ''#2563EB''"
    "categoryIcon (Some (js ''Food-Access'')) = [55358, 56683]"
    "categoryIcon (Some (js ''food_access'')) = [55358, 56683]"
    "categoryIcon (Some (js ''Food Access'')) = [55358, 56683]"
    by (simp_all add: categoryColor_def categoryIcon_def categoryNorm_food_access
        food_access_tests Let_def)
  have rules: "?thesis = (categoryColor (Some (js ''Food-Access'')) = js ''#2563EB'' \<and>
   categoryColor (Some (js ''food_access'')) = js ''#2563EB'' \<and>
   categoryColor (Some (js ''Food Access'')) = js ''#2563EB'' \<and>
   categoryIcon (Some (js ''Food-Access'')) = [55358, 56683] \<and>
   categoryIcon (Some (js ''food_access'')) = [55358, 56683] \<and>
   categoryIcon (Some (js ''Food Access'')) = [55358, 56683])"
    by (simp add: categoryColor_def categoryIcon_def Let_def)
  show ?thesis unfolding rules using ex by simp
qed

lemma categoryNorm_examples:
  "categoryNorm (Some (js ''Library Food_Access'')) = js ''library_food_access''"
  "categoryNorm (Some (js ''Food - City'')) = js ''food_city''"
  "categoryNorm (Some (js ''State Adult Education'')) = js ''state_adult_education''"
  "categoryNorm (Some (js ''Adult Community'')) = js ''adult_community''"
  "categoryNorm (Some (js ''Nonprofit'')) = js ''nonprofit''"
  "categoryNorm (Some (js ''Shelter'')) = js ''shelter''"
  by (simp_all add: categoryNorm_def js_eval)

text \<open>
  One category for each rule; the first four also meet a later rule, which loses.
\<close>

theorem category_rules_witness:
  "categoryColor (Some (js ''Library Food_Access'')) = js ''#2CA3E0'' \<and>
   categoryIcon (Some (js ''Library Food_Access'')) = [55357, 56538] \<and>
   categoryColor (Some (js ''Food - City'')) = js ''#2563EB'' \<and>
   categoryIcon (Some (js ''Food - City'')) = [55358, 56683] \<and>
   categoryColor (Some (js ''State Adult Education'')) = js ''#99c24d'' \<and>
   categoryIcon (Some (js ''State Adult Education'')) = [55356, 57307, 65039] \<and>
   categoryColor (Some (js ''Adult Community'')) = js ''#E11D48'' \<and>
   categoryIcon (Some (js ''Adult Community'')) = [55356, 57235] \<and>
   categoryColor (Some (js ''Nonprofit'')) = js ''#0F766E'' \<and>
   categoryIcon (Some (js ''Nonprofit'')) = [55358, 56605] \<and>
   categoryColor (Some (js ''Shelter'')) = js ''#111827'' \<and>
   categoryIcon (Some (js ''Shelter'')) = [55357, 56525]"
proof -
  have a: "categoryColor (Some (js ''Library Food_Access'')) = js ''#2CA3E0'' \<and>
   categoryIcon (Some (js ''Library Food_Access'')) = [55357, 56538]"
    using category_rules [of "Some (js ''Library Food_Access'')"]
    by (simp add: categoryNorm_examples Let_def) (simp add: js_eval)
  have b: "categoryColor (Some (js ''Food - City'')) = js ''#2563EB'' \<and>
   categoryIcon (Some (js ''Food - City'')) = [55358, 56683]"
    using category_rules [of "Some (js ''Food - City'')"]
    by (simp add: categoryNorm_examples Let_def) (simp add: js_eval)
  have c: "categoryColor (Some (js ''State Adult Education'')) = js ''#99c24d'' \<and>
   categoryIcon (Some (js ''State Adult Education'')) = [55356, 57307, 65039]"
    using category_rules [of "Some (js ''State Adult Education'')"]
    by (simp add: categoryNorm_examples Let_def) (simp add: js_eval)
  have d: "categoryColor (Some (js ''Adult Community'')) = js ''#E11D48'' \<and>
   categoryIcon (Some (js ''Adult Community'')) = [55356, 57235]"
    using category_rules [of "Some (js ''Adult Community'')"]
    by (simp add: categoryNorm_examples Let_def) (simp add: js_eval)
  have e: "categoryColor (Some (js ''Nonprofit'')) = js ''#0F766E'' \<and>
   categoryIcon (Some (js ''Nonprofit'')) = [55358, 56605]"
    using category_rules [of "Some (js ''Nonprofit'')"]
    by (simp add: categoryNorm_examples Let_def) (simp add: js_eval)
  have f: "categoryColor (Some (js ''Shelter'')) = js ''#111827'' \<and>
   categoryIcon (Some (js ''Shelter'')) = [55357, 56525]"
    using category_rules [of "Some (js ''Shelter'')"]
    by (simp add: categoryNorm_examples Let_def) (simp add: js_eval)
  from a b c d e f show ?thesis by simp
qed

lemma js_underscore: "js ''_'' = [95]"
  by (simp add: js_def)

text \<open>
  A run of separators (whitespace, hyphens, underscores) between two parts of a category
  that end and start with other code units normalizes to one underscore, whatever the run
  is: the normalized category is the two normalized parts joined by an underscore.
\<close>

lemma categoryNorm_separator:
  assumes u: "u \<noteq> []" "\<not> isSeparator (last u)"
    and v: "v \<noteq> []" "\<not> isSeparator (hd v)"
    and s: "s \<noteq> []" "\<forall>c \<in> set s. isSeparator c"
  shows "categoryNorm (Some (u @ s @ v)) =
    categoryNorm (Some u) @ js ''_'' @ categoryNorm (Some v)"
proof -
  let ?a = "trim (toLowerCase u)" and ?b = "trim (toLowerCase v)"
  let ?P = "\<lambda>x. isWhiteSpace x \<or> x = 45" and ?Q = "\<lambda>x::nat. x = 95"
  have lu: "toLowerCase u \<noteq> []" "\<not> isSeparator (last (toLowerCase u))"
    using u by (simp_all add: toLowerCase_def last_map lowerUnit_separator)
  have lv: "toLowerCase v \<noteq> []" "\<not> isSeparator (hd (toLowerCase v))"
    using v by (simp_all add: toLowerCase_def hd_map lowerUnit_separator)
  from lu lv have ws: "\<not> isWhiteSpace (last (toLowerCase u))" "\<not> isWhiteSpace (hd (toLowerCase v))"
    by (simp_all add: isSeparator_def)
  have low: "toLowerCase (u @ s @ v) = toLowerCase u @ s @ toLowerCase v"
    using toLowerCase_separators [OF s(2)] by (simp add: toLowerCase_def)
  have t: "trim (toLowerCase (u @ s @ v)) = ?a @ s @ ?b"
    unfolding low using lu(1) ws(1) lv(1) ws(2) by (rule trim_interior)
  have a: "?a \<noteq> []" "\<not> isSeparator (last ?a)"
    using trim_ends(1) [OF lu(1) ws(1)] lu(2) by simp_all
  have b: "?b \<noteq> []" "\<not> isSeparator (hd ?b)"
    using trim_ends(2) [OF lv(1) ws(2)] lv(2) by simp_all
  from a b have aP: "\<not> ?P (last ?a)" and bP: "\<not> ?P (hd ?b)"
    by (simp_all add: isSeparator_def)
  let ?X = "replaceRuns ?P [95] ?a" and ?U = "replaceRuns ?P [95] s"
  let ?Y = "replaceRuns ?P [95] ?b"
  have p1: "replaceRuns ?P [95] (?a @ s @ ?b) = ?X @ ?U @ ?Y"
    using replaceRuns_append_last [of ?a ?P "[95]" "s @ ?b"]
      replaceRuns_append_hd [of ?b ?P "[95]" s] a(1) aP bP by simp
  have X: "?X \<noteq> []" "\<not> ?Q (last ?X)"
    using replaceRuns_last [of ?a ?P "[95]"] a aP by (simp_all add: isSeparator_def)
  have Y: "?Y \<noteq> []" "\<not> ?Q (hd ?Y)"
    using replaceRuns_hd [of ?b ?P "[95]"] b bP by (simp_all add: isSeparator_def)
  have "\<forall>c \<in> set s. ?P c \<or> c = 95"
    using s(2) by (auto simp: isSeparator_def)
  with s(1) have U: "?U \<noteq> []" "\<forall>c \<in> set ?U. ?Q c"
    using underscores [of s ?P] by simp_all
  have p2: "replaceRuns ?Q [95] (?X @ ?U @ ?Y) =
      replaceRuns ?Q [95] ?X @ [95] @ replaceRuns ?Q [95] ?Y"
    using replaceRuns_append_last [of ?X ?Q "[95]" "?U @ ?Y"]
      replaceRuns_append_hd [of ?Y ?Q "[95]" ?U] replaceRuns_all [of ?U ?Q "[95]"] X Y U
    by simp
  from u(1) v(1) show ?thesis
    by (simp add: categoryNorm_def js_underscore t p1 p2 Let_def)
qed

text \<open>So colour and icon do not depend on which separators stand between the parts.\<close>

lemma categoryColor_separator:
  assumes "u \<noteq> []" "\<not> isSeparator (last u)" "v \<noteq> []" "\<not> isSeparator (hd v)"
    and "s \<noteq> []" "\<forall>c \<in> set s. isSeparator c" and "s' \<noteq> []" "\<forall>c \<in> set s'. isSeparator c"
  shows "categoryColor (Some (u @ s @ v)) = categoryColor (Some (u @ s' @ v)) \<and>
    categoryIcon (Some (u @ s @ v)) = categoryIcon (Some (u @ s' @ v))"
  using assms by (simp add: categoryColor_def categoryIcon_def categoryNorm_separator)

text \<open>Nor do they depend on the case of the letters.\<close>

lemma categoryColor_case:
  "toLowerCase a = toLowerCase b \<Longrightarrow>
   categoryColor (Some a) = categoryColor (Some b) \<and> categoryIcon (Some a) = categoryIcon (Some b)"
proof -
  assume e: "toLowerCase a = toLowerCase b"
  have "\<And>x. toLowerCase (strOr (Some x) []) = toLowerCase x" by (simp add: toLowerCase_def)
  with e have "categoryNorm (Some a) = categoryNorm (Some b)"
    by (simp add: categoryNorm_def)
  then show ?thesis by (simp add: categoryColor_def categoryIcon_def)
qed

subsection \<open>Tag canonicalization\<close>

lemma tagStep_snd:
  "snd (tagStep lc T tg) k =
     (if k \<in> set (idKeys lc tg) then Some (canonicalOf tg) else snd T k)"
  by (simp add: tagStep_def idKeys_def canonicalOf_def Let_def)

lemma tagStep_fst:
  "fst (tagStep lc T tg) k =
     (if k \<in> set (displayKeys lc tg) then Some (canonicalOf tg) else fst T k)"
  by (simp add: tagStep_def displayKeys_def canonicalOf_def Let_def)

lemma lastWriter_snoc:
  "lastWriter keys k (tgs @ [tg]) =
     (if k \<in> set (keys tg) then Some (canonicalOf tg) else lastWriter keys k tgs)"
  by (simp add: lastWriter_def)

text \<open>
  After the loop each table holds, under every key, the identifier of the last entry that
  wrote the key.
\<close>

lemma foldl_tagStep_snd:
  "snd (foldl (tagStep lc) T tgs) k =
     (case lastWriter (idKeys lc) k tgs of Some c \<Rightarrow> Some c | None \<Rightarrow> snd T k)"
proof (induction tgs rule: rev_induct)
  case Nil
  show ?case by (simp add: lastWriter_def)
next
  case (snoc tg tgs)
  then show ?case by (simp add: tagStep_snd lastWriter_snoc)
qed

lemma foldl_tagStep_fst:
  "fst (foldl (tagStep lc) T tgs) k =
     (case lastWriter (displayKeys lc) k tgs of Some c \<Rightarrow> Some c | None \<Rightarrow> fst T k)"
proof (induction tgs rule: rev_induct)
  case Nil
  show ?case by (simp add: lastWriter_def)
next
  case (snoc tg tgs)
  then show ?case by (simp add: tagStep_fst lastWriter_snoc)
qed

lemma buildMaps_tables:
  "fst (buildMaps lc tagsData) k = lastWriter (displayKeys lc) k tagsData"
  "snd (buildMaps lc tagsData) k = lastWriter (idKeys lc) k tagsData"
  by (simp_all add: buildMaps_def foldl_tagStep_fst foldl_tagStep_snd split: option.splits)

lemma lastWriter_Some:
  "lastWriter keys k tgs = Some c \<Longrightarrow> \<exists>tg \<in> set tgs. canonicalOf tg = c \<and> k \<in> set (keys tg)"
proof (induction tgs rule: rev_induct)
  case Nil
  then show ?case by (simp add: lastWriter_def)
next
  case (snoc tg tgs)
  then show ?case by (auto simp: lastWriter_snoc split: if_splits)
qed

lemma lastWriter_present:
  "tg \<in> set tgs \<Longrightarrow> k \<in> set (keys tg) \<Longrightarrow> lastWriter keys k tgs \<noteq> None"
proof (induction tgs rule: rev_induct)
  case Nil
  then show ?case by simp
next
  case (snoc x tgs)
  then show ?case by (auto simp: lastWriter_snoc)
qed

lemma keys_canonical:
  "k \<in> set (idKeys lc tg) \<Longrightarrow> canonicalOf tg \<noteq> []"
  "k \<in> set (displayKeys lc tg) \<Longrightarrow> canonicalOf tg \<noteq> []"
  by (auto simp: idKeys_def displayKeys_def split: if_splits)

lemma nbsp_twice:
  "map (\<lambda>c::nat. if c = 160 then 32 else c) (map (\<lambda>c. if c = 160 then 32 else c) raw) =
   map (\<lambda>c. if c = 160 then 32 else c) raw"
  by (induction raw) simp_all

lemma normalizeTagKey_cleaned:
  "normalizeTagKey lc (map (\<lambda>c. if c = 160 then 32 else c) raw) = normalizeTagKey lc raw"
  unfolding normalizeTagKey_def nbsp_twice ..


text \<open>
  Two identifiers that differ in case share a key of the identifier table, and the later
  entry wins; an identifier of zero-width code units only has the empty key and is dropped.
\<close>

lemma canonicalizeTag_case_clash:
  "canonicalizeTag toLowerCase
     (buildMaps toLowerCase
        [\<lparr> tag = Some (js ''ESOL''), display_name = None \<rparr>,
         \<lparr> tag = Some (js ''esol''), display_name = None \<rparr>])
     (js ''ESOL'') = js ''esol''"
  by (simp add: canonicalizeTag_def buildMaps_def tagStep_def normalizeTagKey_def
      underscoresToSpaces_def js_eval Let_def)

lemma canonicalizeTag_zero_width:
  "canonicalOf \<lparr> tag = Some [8203], display_name = None \<rparr> = [8203] \<and>
   canonicalizeTag toLowerCase
     (buildMaps toLowerCase [\<lparr> tag = Some [8203], display_name = None \<rparr>]) [8203] = []"
  by (simp add: canonicalizeTag_def canonicalOf_def normalizeTagKey_def js_eval Let_def)

text \<open>
  What canonicalizing the identifier of an entry comes to when its key is not empty: the
  identifier table has the key, and the result is the identifier under that key in the
  display-name table if there is one, in the identifier table otherwise.
\<close>

lemma canonicalizeTag_lookup:
  assumes tg: "tg \<in> set tagsData" and ne: "canonicalOf tg \<noteq> []"
    and key: "normalizeTagKey lc (canonicalOf tg) \<noteq> []"
  shows "\<exists>c. lastWriter (idKeys lc) (normalizeTagKey lc (canonicalOf tg)) tagsData = Some c \<and>
    canonicalizeTag lc (buildMaps lc tagsData) (canonicalOf tg) =
      (case lastWriter (displayKeys lc) (normalizeTagKey lc (canonicalOf tg)) tagsData of
         Some d \<Rightarrow> d | None \<Rightarrow> c)"
proof -
  let ?t = "canonicalOf tg" and ?k = "normalizeTagKey lc (canonicalOf tg)"
  from ne have "?k \<in> set (idKeys lc tg)" by (simp add: idKeys_def)
  with tg have "lastWriter (idKeys lc) ?k tagsData \<noteq> None" by (rule lastWriter_present)
  then obtain c where c: "lastWriter (idKeys lc) ?k tagsData = Some c" by auto
  from lastWriter_Some [OF c] have cne: "c \<noteq> []" by (auto dest: keys_canonical(1))
  have r: "canonicalizeTag lc (buildMaps lc tagsData) ?t =
      strOr (lastWriter (displayKeys lc) ?k tagsData) c"
    using key c cne
    by (simp add: canonicalizeTag_def normalizeTagKey_cleaned buildMaps_tables Let_def)
  have "strOr (lastWriter (displayKeys lc) ?k tagsData) c =
      (case lastWriter (displayKeys lc) ?k tagsData of Some d \<Rightarrow> d | None \<Rightarrow> c)"
  proof (cases "lastWriter (displayKeys lc) ?k tagsData")
    case None
    then show ?thesis by simp
  next
    case (Some d)
    from lastWriter_Some [OF Some] have "d \<noteq> []" by (auto dest: keys_canonical(2))
    with Some show ?thesis by simp
  qed
  with r c show ?thesis by simp
qed



text \<open>
  In particular the identifier comes back unchanged when its key is not empty and no
  entry with another identifier writes that key into either table.
\<close>

lemma canonicalizeTag_no_clash:
  assumes tg: "tg \<in> set tagsData" and ne: "canonicalOf tg \<noteq> []"
    and key: "normalizeTagKey lc (canonicalOf tg) \<noteq> []"
    and others: "\<forall>tg' \<in> set tagsData. canonicalOf tg' \<noteq> canonicalOf tg \<longrightarrow>
        normalizeTagKey lc (canonicalOf tg) \<notin> set (idKeys lc tg') \<union> set (displayKeys lc tg')"
  shows "canonicalizeTag lc (buildMaps lc tagsData) (canonicalOf tg) = canonicalOf tg"
proof -
  let ?t = "canonicalOf tg" and ?k = "normalizeTagKey lc (canonicalOf tg)"
  from canonicalizeTag_lookup [OF tg ne key] obtain c
    where c: "lastWriter (idKeys lc) ?k tagsData = Some c"
      and r: "canonicalizeTag lc (buildMaps lc tagsData) ?t =
        (case lastWriter (displayKeys lc) ?k tagsData of Some d \<Rightarrow> d | None \<Rightarrow> c)"
    by blast
  from lastWriter_Some [OF c] others have ct: "c = ?t" by auto
  show ?thesis
  proof (cases "lastWriter (displayKeys lc) ?k tagsData")
    case None
    with r ct show ?thesis by simp
  next
    case (Some d)
    from lastWriter_Some [OF Some] others have "d = ?t" by auto
    with r Some show ?thesis by simp
  qed
qed

text \<open>A tag spelled as the display name "ESOL Classes" becomes \<open>esol_classes\<close>.\<close>

lemma canonicalizeTag_display_name:
  "canonicalizeTag toLowerCase (buildMaps toLowerCase [esolEntry, foodEntry])
     (js ''ESOL Classes'') = js ''esol_classes''"
  by (simp add: canonicalizeTag_def buildMaps_def tagStep_def normalizeTagKey_def
      underscoresToSpaces_def esolEntry_def foodEntry_def js_eval Let_def)

subsection \<open>A failed load\<close>

text \<open>After a failed fetch the loading flag is off: the header does not show "Loading...".\<close>

theorem load_failure_counterexample:
  "\<not> headerShowsLoading
       (load toLowerCase False (FetchRejected (js ''TypeError: Failed to fetch'')) (Json [])
          initialDashboard)"
  by (simp add: headerShowsLoading_def loadFailed_def initialDashboard_def)

text \<open>
  C8 (amended). When a fetch or the parsing of a body fails, the error is logged, the
  loading flag is cleared, and the places and the tag guide stay empty: nothing of a
  half-loaded dataset is shown. This holds whichever fetch rejects first.
\<close>

theorem load_failure:
  "errorOf placesRes \<noteq> None \<or> errorOf tagsRes \<noteq> None \<Longrightarrow>
   \<not> loading (load lc tagsFirst placesRes tagsRes initialDashboard) \<and>
   \<not> headerShowsLoading (load lc tagsFirst placesRes tagsRes initialDashboard) \<and>
   (\<exists>e. console (load lc tagsFirst placesRes tagsRes initialDashboard) = [e] \<and>
        Some e \<in> {errorOf placesRes, errorOf tagsRes}) \<and>
   places (load lc tagsFirst placesRes tagsRes initialDashboard) = [] \<and>
   tagGuide (load lc tagsFirst placesRes tagsRes initialDashboard) = []"
  by (cases placesRes; cases tagsRes)
    (auto simp: headerShowsLoading_def loadFailed_def initialDashboard_def)

theorem load_failure_witness:
  "\<not> loading (load toLowerCase False (Json [emptyPlace]) (JsonRejected (js ''SyntaxError''))
       initialDashboard) \<and>
   console (load toLowerCase False (Json [emptyPlace]) (JsonRejected (js ''SyntaxError''))
       initialDashboard) = [js ''SyntaxError''] \<and>
   places (load toLowerCase False (Json [emptyPlace]) (JsonRejected (js ''SyntaxError''))
       initialDashboard) = []"
  using load_failure [of "Json [emptyPlace]" "JsonRejected (js ''SyntaxError'')" toLowerCase False]
  by simp

text \<open>When both fetches reject, the error logged is that of the fetch that rejected first.\<close>

lemma load_both_rejected:
  "console (load lc tagsFirst (FetchRejected e) (FetchRejected e') initialDashboard) =
     [if tagsFirst then e' else e]"
  by (simp add: loadFailed_def initialDashboard_def)

subsection \<open>The sidebar width\<close>











lemma drag_example:
  "sidebarWidth (foldl (handle Fin (\<lambda>w. []))
     (mount (\<lambda>r. if r = js ''300'' then Fin 300 else NaN) (\<lambda>w. []) (Some (js ''300'')))
     [PointerDown 400, PointerMove 1000, PointerUp]) = Fin 520"
  by (simp add: mount_def persist_def initialSidebarWidth_def isFinite_def js_ge_def onMove_def
      setSidebarWidth_def js_sub_def Let_def)

subsection \<open>The width requested from the photo proxy\<close>

lemma parseInt10_400: "parseInt10 (js ''400'') = Fin 400"
  by (simp add: parseInt10_def js_def isWhiteSpace_def isDigit_def digitsValue_def Let_def)

lemma clamp_Fin: "js_min (Fin 1600) (js_max (Fin 50) (Fin v)) = Fin (min 1600 (max 50 v))"
  by (simp add: min_def max_def)

text \<open>
  C10. Without a \<open>w\<close> parameter the width is 400. With one, it is the parsed integer
  clamped into the range from 50 to 1600 when the parameter parses to a finite number, and
  400 when it does not.
\<close>

theorem photoWidth_clamp:
  "photoWidth None = Fin 400 \<and>
   photoWidth (Some s) =
     (case parseInt10 s of Fin v \<Rightarrow> Fin (min 1600 (max 50 v)) | _ \<Rightarrow> Fin 400)"
proof -
  have d: "photoWidth None = Fin 400"
    by (simp add: photoWidth_def parseInt10_400 isFinite_def)
  have e: "parseInt10 [] = NaN"
    by (simp add: parseInt10_def)
  have "photoWidth (Some s) =
     (case parseInt10 s of Fin v \<Rightarrow> Fin (min 1600 (max 50 v)) | _ \<Rightarrow> Fin 400)"
  proof (cases "s = []")
    case True
    then show ?thesis by (simp add: photoWidth_def parseInt10_400 isFinite_def e)
  next
    case False
    then show ?thesis
      by (cases "parseInt10 s") (simp_all add: photoWidth_def isFinite_def clamp_Fin del: js_min.simps js_max.simps)
  qed
  with d show ?thesis by simp
qed

lemma parse_examples:
  "parseInt10 (js ''300'') = Fin 300"
  "parseInt10 (js ''5000'') = Fin 5000"
  "parseInt10 (js ''-7'') = Fin (-7)"
  "parseInt10 (js ''  12px'') = Fin 12"
  "parseInt10 (js ''wide'') = NaN"
  by (simp_all add: parseInt10_def js_def isWhiteSpace_def isDigit_def digitsValue_def Let_def)

theorem photoWidth_clamp_witness:
  "photoWidth (Some (js ''300'')) = Fin 300 \<and> photoWidth (Some (js ''5000'')) = Fin 1600 \<and>
   photoWidth (Some (js ''-7'')) = Fin 50 \<and> photoWidth (Some (js ''  12px'')) = Fin 50 \<and>
   photoWidth (Some (js ''wide'')) = Fin 400 \<and> photoWidth (Some []) = Fin 400"
  using photoWidth_clamp [of "js ''300''"] photoWidth_clamp [of "js ''5000''"]
    photoWidth_clamp [of "js ''-7''"] photoWidth_clamp [of "js ''  12px''"]
    photoWidth_clamp [of "js ''wide''"] photoWidth_clamp [of "[]"]
  by (simp add: parse_examples) (simp add: parseInt10_def)

lemma parseInt10_integer: "parseInt10 s = Fin v \<Longrightarrow> v \<in> \<int>"
  by (auto simp: parseInt10_def Let_def split: if_splits)

end
